theory Spec2Isabelle
  imports Complex_Main
begin

section \<open>Scalars, vectors and matrices\<close>

text \<open>
  Modelled from the spec: the scalar type \<^verbatim>\<open>FCL_REAL\<close>, whose declaration is not part
  of these sources. The code gives it the \<^verbatim>\<open>NAN\<close> marker and a largest value
  (\<^verbatim>\<open>std::numeric_limits<FCL_REAL>::max()\<close>): it is a floating-point type. The model
  keeps what the real numbers do not have, the \<^verbatim>\<open>NAN\<close> marker, the two infinities that
  arithmetic can reach, and comparisons that are false as soon as one side is \<^verbatim>\<open>NAN\<close>,
  with the rules of IEEE arithmetic for them. A finite value is the real number it
  denotes: rounding, overflow of a finite result and the sign of zero are left out.
  The definitions of the object model are polymorphic in the scalar wherever they only
  move scalars around or combine them with \<^verbatim>\<open>+\<close>, \<^verbatim>\<open>-\<close> and \<^verbatim>\<open>*\<close>, so that what is
  proved of them does not depend on this choice.
\<close>

datatype FCL_REAL = NaN | MInf | Finite real | PInf

fun fcl_uminus :: "FCL_REAL \<Rightarrow> FCL_REAL" where
  "fcl_uminus NaN = NaN"
| "fcl_uminus MInf = PInf"
| "fcl_uminus PInf = MInf"
| "fcl_uminus (Finite x) = Finite (- x)"

fun fcl_plus :: "FCL_REAL \<Rightarrow> FCL_REAL \<Rightarrow> FCL_REAL" where
  "fcl_plus NaN _ = NaN"
| "fcl_plus _ NaN = NaN"
| "fcl_plus PInf MInf = NaN"
| "fcl_plus MInf PInf = NaN"
| "fcl_plus PInf _ = PInf"
| "fcl_plus _ PInf = PInf"
| "fcl_plus MInf _ = MInf"
| "fcl_plus _ MInf = MInf"
| "fcl_plus (Finite x) (Finite y) = Finite (x + y)"

text \<open>The sign of a scalar that is not \<^verbatim>\<open>NAN\<close>, for the product with an infinity.\<close>

fun fcl_sgn :: "FCL_REAL \<Rightarrow> real" where
  "fcl_sgn NaN = 0"
| "fcl_sgn MInf = - 1"
| "fcl_sgn PInf = 1"
| "fcl_sgn (Finite x) = sgn x"

fun fcl_times :: "FCL_REAL \<Rightarrow> FCL_REAL \<Rightarrow> FCL_REAL" where
  "fcl_times NaN _ = NaN"
| "fcl_times _ NaN = NaN"
| "fcl_times (Finite x) (Finite y) = Finite (x * y)"
| "fcl_times a b =
     (if fcl_sgn a * fcl_sgn b = 0 then NaN
      else if fcl_sgn a * fcl_sgn b < 0 then MInf else PInf)"

fun fcl_less_eq :: "FCL_REAL \<Rightarrow> FCL_REAL \<Rightarrow> bool" where
  "fcl_less_eq NaN _ = False"
| "fcl_less_eq _ NaN = False"
| "fcl_less_eq MInf _ = True"
| "fcl_less_eq _ PInf = True"
| "fcl_less_eq PInf _ = False"
| "fcl_less_eq _ MInf = False"
| "fcl_less_eq (Finite x) (Finite y) = (x \<le> y)"

fun fcl_less :: "FCL_REAL \<Rightarrow> FCL_REAL \<Rightarrow> bool" where
  "fcl_less NaN _ = False"
| "fcl_less _ NaN = False"
| "fcl_less PInf _ = False"
| "fcl_less _ MInf = False"
| "fcl_less MInf _ = True"
| "fcl_less _ PInf = True"
| "fcl_less (Finite x) (Finite y) = (x < y)"

text \<open>The C++ operator \<^verbatim>\<open>==\<close> on scalars: false when a side is \<^verbatim>\<open>NAN\<close>.\<close>

definition fcl_eq :: "FCL_REAL \<Rightarrow> FCL_REAL \<Rightarrow> bool" where
  "fcl_eq a b = (a \<noteq> NaN \<and> b \<noteq> NaN \<and> a = b)"

instantiation FCL_REAL :: "{zero, one, plus, minus, uminus, times, ord}"
begin

definition zero_FCL_REAL :: FCL_REAL where
  "zero_FCL_REAL = Finite 0"

definition one_FCL_REAL :: FCL_REAL where
  "one_FCL_REAL = Finite 1"

definition uminus_FCL_REAL :: "FCL_REAL \<Rightarrow> FCL_REAL" where
  "uminus_FCL_REAL a = fcl_uminus a"

definition plus_FCL_REAL :: "FCL_REAL \<Rightarrow> FCL_REAL \<Rightarrow> FCL_REAL" where
  "plus_FCL_REAL a b = fcl_plus a b"

definition minus_FCL_REAL :: "FCL_REAL \<Rightarrow> FCL_REAL \<Rightarrow> FCL_REAL" where
  "minus_FCL_REAL a b = fcl_plus a (fcl_uminus b)"

definition times_FCL_REAL :: "FCL_REAL \<Rightarrow> FCL_REAL \<Rightarrow> FCL_REAL" where
  "times_FCL_REAL a b = fcl_times a b"

definition less_eq_FCL_REAL :: "FCL_REAL \<Rightarrow> FCL_REAL \<Rightarrow> bool" where
  "less_eq_FCL_REAL a b = fcl_less_eq a b"

definition less_FCL_REAL :: "FCL_REAL \<Rightarrow> FCL_REAL \<Rightarrow> bool" where
  "less_FCL_REAL a b = fcl_less a b"

instance ..

end

text \<open>
  \<^verbatim>\<open>std::numeric_limits<FCL_REAL>::max()\<close>, the largest finite double, and the \<^verbatim>\<open>NAN\<close>
  macro of \<^verbatim>\<open><cmath>\<close>.
\<close>

definition FCL_REAL_max :: FCL_REAL where
  "FCL_REAL_max = Finite ((2 ^ 53 - 1) * 2 ^ 971)"

definition NAN :: FCL_REAL where
  "NAN = NaN"

text \<open>
  \<^verbatim>\<open>Vec3f\<close> and \<^verbatim>\<open>Matrix3f\<close> are Eigen's fixed-size vector and matrix. The constructor
  of \<open>Matrix3f\<close> takes the nine coefficients row by row, as the comma initialiser
  \<^verbatim>\<open>Matrix3f() << ...\<close> does; \<open>vcoeff v i\<close> is \<^verbatim>\<open>v[i]\<close> and \<open>coeff m i j\<close> is
  \<^verbatim>\<open>m(i, j)\<close>, for the indices 0, 1 and 2 that the code uses.
\<close>

datatype 'a Vec3f = Vec3f 'a 'a 'a

datatype 'a Matrix3f = Matrix3f 'a 'a 'a 'a 'a 'a 'a 'a 'a

fun vcoeff :: "'a Vec3f \<Rightarrow> nat \<Rightarrow> 'a" where
  "vcoeff (Vec3f x y z) i = (if i = 0 then x else if i = 1 then y else z)"

fun coeff :: "'a Matrix3f \<Rightarrow> nat \<Rightarrow> nat \<Rightarrow> 'a" where
  "coeff (Matrix3f a00 a01 a02 a10 a11 a12 a20 a21 a22) i j =
     (if i = 0 then (if j = 0 then a00 else if j = 1 then a01 else a02)
      else if i = 1 then (if j = 0 then a10 else if j = 1 then a11 else a12)
      else (if j = 0 then a20 else if j = 1 then a21 else a22))"

definition Vec3f_Constant :: "'a \<Rightarrow> 'a Vec3f" where
  "Vec3f_Constant c = Vec3f c c c"

definition Vec3f_Zero :: "'a::zero Vec3f" where
  "Vec3f_Zero = Vec3f_Constant 0"

definition Matrix3f_Constant :: "'a \<Rightarrow> 'a Matrix3f" where
  "Matrix3f_Constant c = Matrix3f c c c c c c c c c"

definition Matrix3f_Identity :: "'a::{zero,one} Matrix3f" where
  "Matrix3f_Identity = Matrix3f 1 0 0 0 1 0 0 0 1"

fun Vec3f_plus :: "'a::plus Vec3f \<Rightarrow> 'a Vec3f \<Rightarrow> 'a Vec3f" where
  "Vec3f_plus (Vec3f a b c) (Vec3f x y z) = Vec3f (a + x) (b + y) (c + z)"

fun Vec3f_minus :: "'a::minus Vec3f \<Rightarrow> 'a Vec3f \<Rightarrow> 'a Vec3f" where
  "Vec3f_minus (Vec3f a b c) (Vec3f x y z) = Vec3f (a - x) (b - y) (c - z)"

fun Matrix3f_times_Vec3f :: "'a::{plus,times} Matrix3f \<Rightarrow> 'a Vec3f \<Rightarrow> 'a Vec3f" where
  "Matrix3f_times_Vec3f (Matrix3f a00 a01 a02 a10 a11 a12 a20 a21 a22) (Vec3f x y z) =
     Vec3f (a00 * x + a01 * y + a02 * z)
           (a10 * x + a11 * y + a12 * z)
           (a20 * x + a21 * y + a22 * z)"

section \<open>The geometry\<close>

text \<open>
  An address of the store; a pointer or a \<^verbatim>\<open>shared_ptr\<close> is an address or null
  (\<open>None\<close>).
\<close>

type_synonym addr = nat

text \<open>
  \<^verbatim>\<open>AABB\<close> (\<^verbatim>\<open>BV/AABB.h\<close>) is used through its two corners \<^verbatim>\<open>min_\<close> and \<^verbatim>\<open>max_\<close>,
  which \<^verbatim>\<open>computeAABB\<close> assigns; they are the fields \<open>min_v\<close> and \<open>max_v\<close> here.
\<close>

record 'a AABB =
  min_v :: "'a Vec3f"
  max_v :: "'a Vec3f"

text \<open>
  The data members of \<^verbatim>\<open>class CollisionGeometry\<close>. A derived class adds its own
  members: it is an extension of this record.
\<close>

record 'a CollisionGeometry =
  aabb_center :: "'a Vec3f"
  aabb_radius :: 'a
  aabb_local :: "'a AABB"
  user_data :: "addr option"
  cost_density :: 'a
  threshold_occupied :: 'a
  threshold_free :: 'a

text \<open>
  The default constructor. Its initialiser list sets five members; \<^verbatim>\<open>aabb_local\<close> is
  built by the default constructor of \<^verbatim>\<open>AABB\<close> and \<^verbatim>\<open>user_data\<close> is left
  uninitialised, so the model takes both, and the members of a derived class, from the
  storage \<open>raw\<close> that the constructor runs on.
\<close>

definition CollisionGeometry_ctor ::
  "(FCL_REAL, 'z) CollisionGeometry_scheme \<Rightarrow> (FCL_REAL, 'z) CollisionGeometry_scheme" where
  "CollisionGeometry_ctor raw =
     raw\<lparr>aabb_center := Vec3f_Constant FCL_REAL_max,
         aabb_radius := - 1,
         cost_density := 1,
         threshold_occupied := 1,
         threshold_free := 0\<rparr>"

definition isOccupied :: "('a::ord, 'z) CollisionGeometry_scheme \<Rightarrow> bool" where
  "isOccupied g = (cost_density g \<ge> threshold_occupied g)"

definition isFree :: "('a::ord, 'z) CollisionGeometry_scheme \<Rightarrow> bool" where
  "isFree g = (cost_density g \<le> threshold_free g)"

text \<open>
  The virtual member functions of the geometry that the code below calls, as dynamic
  dispatch resolves them on a geometry \<open>'g\<close>: \<^verbatim>\<open>computeLocalAABB\<close> is pure virtual and
  updates the geometry; the three mass properties have the defaults of the base class,
  given next.
\<close>

record ('a, 'g) virtuals =
  computeLocalAABB :: "'g \<Rightarrow> 'g"
  computeCOM :: "'g \<Rightarrow> 'a Vec3f"
  computeMomentofInertia :: "'g \<Rightarrow> 'a Matrix3f"
  computeVolume :: "'g \<Rightarrow> 'a"

definition CollisionGeometry_computeCOM :: "'g \<Rightarrow> FCL_REAL Vec3f" where
  "CollisionGeometry_computeCOM g = Vec3f_Zero"

definition CollisionGeometry_computeMomentofInertia :: "'g \<Rightarrow> FCL_REAL Matrix3f" where
  "CollisionGeometry_computeMomentofInertia g = Matrix3f_Constant NAN"

definition CollisionGeometry_computeVolume :: "'g \<Rightarrow> FCL_REAL" where
  "CollisionGeometry_computeVolume g = 0"

text \<open>
  A class that overrides none of the mass properties: only \<^verbatim>\<open>computeLocalAABB\<close>, which
  it has to define, is its own.
\<close>

definition CollisionGeometry_virtuals :: "('g \<Rightarrow> 'g) \<Rightarrow> (FCL_REAL, 'g) virtuals" where
  "CollisionGeometry_virtuals cl =
     \<lparr>computeLocalAABB = cl,
      computeCOM = CollisionGeometry_computeCOM,
      computeMomentofInertia = CollisionGeometry_computeMomentofInertia,
      computeVolume = CollisionGeometry_computeVolume\<rparr>"

text \<open>
  The implementation of \<^verbatim>\<open>computeMomentofInertiaRelatedToCOM\<close> in the base class. Its
  three calls are virtual calls on the same geometry.
\<close>

definition computeMomentofInertiaRelatedToCOM ::
  "('a::{plus,minus,times}, 'g) virtuals \<Rightarrow> 'g \<Rightarrow> 'a Matrix3f" where
  "computeMomentofInertiaRelatedToCOM vt g =
     (let C = computeMomentofInertia vt g;
          com = computeCOM vt g;
          V = computeVolume vt g
      in Matrix3f
           (coeff C 0 0 - V * (vcoeff com 1 * vcoeff com 1 + vcoeff com 2 * vcoeff com 2))
           (coeff C 0 1 + V * vcoeff com 0 * vcoeff com 1)
           (coeff C 0 2 + V * vcoeff com 0 * vcoeff com 2)
           (coeff C 1 0 + V * vcoeff com 1 * vcoeff com 0)
           (coeff C 1 1 - V * (vcoeff com 0 * vcoeff com 0 + vcoeff com 2 * vcoeff com 2))
           (coeff C 1 2 + V * vcoeff com 1 * vcoeff com 2)
           (coeff C 2 0 + V * vcoeff com 2 * vcoeff com 0)
           (coeff C 2 1 + V * vcoeff com 2 * vcoeff com 1)
           (coeff C 2 2 - V * (vcoeff com 0 * vcoeff com 0 + vcoeff com 1 * vcoeff com 1)))"

section \<open>The object\<close>

text \<open>
  Modelled from the spec: \<^verbatim>\<open>class Transform3f\<close> of \<^verbatim>\<open>math/transform.h\<close>, which is not
  part of these sources. The spec describes it as a rigid transform, a rotation and a
  translation; the two fields carry the names of its accessors, and the setters replace
  the part they name.
\<close>

record 'a Transform3f =
  getRotation :: "'a Matrix3f"
  getTranslation :: "'a Vec3f"

definition Transform3f_setRotation :: "'a Matrix3f \<Rightarrow> 'a Transform3f \<Rightarrow> 'a Transform3f" where
  "Transform3f_setRotation R tf = tf\<lparr>getRotation := R\<rparr>"

definition Transform3f_setTranslation :: "'a Vec3f \<Rightarrow> 'a Transform3f \<Rightarrow> 'a Transform3f" where
  "Transform3f_setTranslation T tf = tf\<lparr>getTranslation := T\<rparr>"

definition Transform3f_setTransform ::
  "'a Matrix3f \<Rightarrow> 'a Vec3f \<Rightarrow> 'a Transform3f \<Rightarrow> 'a Transform3f" where
  "Transform3f_setTransform R T tf = tf\<lparr>getRotation := R, getTranslation := T\<rparr>"

definition Transform3f_setIdentity :: "'a::{zero,one} Transform3f \<Rightarrow> 'a Transform3f" where
  "Transform3f_setIdentity tf = tf\<lparr>getRotation := Matrix3f_Identity, getTranslation := Vec3f_Zero\<rparr>"

text \<open>
  Modelled from the spec: \<^verbatim>\<open>Transform3f::transform\<close> of \<^verbatim>\<open>math/transform.h\<close>, the image
  \<open>R \<cdot> v + t\<close> of a point.
\<close>

definition transform :: "'a::{plus,times} Transform3f \<Rightarrow> 'a Vec3f \<Rightarrow> 'a Vec3f" where
  "transform tf v = Vec3f_plus (Matrix3f_times_Vec3f (getRotation tf) v) (getTranslation tf)"

text \<open>
  Modelled from the spec: \<^verbatim>\<open>translate\<close> of \<^verbatim>\<open>BV/AABB.h\<close>, which is not part of these
  sources: the box moved by a vector, both corners shifted by it.
\<close>

definition translate :: "'a::plus AABB \<Rightarrow> 'a Vec3f \<Rightarrow> 'a AABB" where
  "translate bv v = bv\<lparr>min_v := Vec3f_plus (min_v bv) v, max_v := Vec3f_plus (max_v bv) v\<rparr>"

text \<open>
  The data members of \<^verbatim>\<open>class CollisionObject\<close>. The geometry is shared: \<open>cgeom\<close> is
  the address of a geometry in the store, or null. A \<^verbatim>\<open>shared_ptr\<close> that is not null
  keeps its geometry alive, so the store is total: every address holds a geometry.
\<close>

record 'a CollisionObject =
  cgeom :: "addr option"
  t :: "'a Transform3f"
  aabb :: "'a AABB"
  user_data_obj :: "addr option"

type_synonym ('a, 'z) store = "addr \<Rightarrow> ('a, 'z) CollisionGeometry_scheme"

text \<open>Reading a member through a null \<^verbatim>\<open>cgeom\<close> is the one failure of this code.\<close>

datatype error = NullPointerDereference

definition getAABB :: "'a CollisionObject \<Rightarrow> 'a AABB" where
  "getAABB obj = aabb obj"

text \<open>
  \<^verbatim>\<open>computeAABB\<close>. The test \<^verbatim>\<open>isIdentity()\<close> on the rotation is Eigen's; it is a
  parameter of the model.
\<close>

definition computeAABB ::
  "('a::{plus,minus,times} Matrix3f \<Rightarrow> bool) \<Rightarrow> ('a, 'z) store \<Rightarrow> 'a CollisionObject
     \<Rightarrow> error + 'a CollisionObject" where
  "computeAABB isIdentity h obj =
     (if isIdentity (getRotation (t obj)) then
        (case cgeom obj of
           None \<Rightarrow> Inl NullPointerDereference
         | Some p \<Rightarrow>
             Inr (obj\<lparr>aabb := translate (aabb_local (h p)) (getTranslation (t obj))\<rparr>))
      else
        (case cgeom obj of
           None \<Rightarrow> Inl NullPointerDereference
         | Some p \<Rightarrow>
             (let center = transform (t obj) (aabb_center (h p));
                  delta = Vec3f_Constant (aabb_radius (h p))
              in Inr (obj\<lparr>aabb := (aabb obj)\<lparr>min_v := Vec3f_minus center delta,
                                               max_v := Vec3f_plus center delta\<rparr>\<rparr>))))"

text \<open>
  \<^verbatim>\<open>init\<close>. The virtual call \<^verbatim>\<open>cgeom->computeLocalAABB()\<close> updates the shared geometry
  in the store.
\<close>

definition init ::
  "('a::{plus,minus,times} Matrix3f \<Rightarrow> bool) \<Rightarrow> ('a, ('a, 'z) CollisionGeometry_scheme) virtuals
     \<Rightarrow> bool \<Rightarrow> ('a, 'z) store \<times> 'a CollisionObject
     \<Rightarrow> error + (('a, 'z) store \<times> 'a CollisionObject)" where
  "init isIdentity vt compute_local_aabb s =
     (case s of (h, obj) \<Rightarrow>
        (case cgeom obj of
           None \<Rightarrow> Inr (h, obj)
         | Some p \<Rightarrow>
             (let h' = (if compute_local_aabb then h(p := computeLocalAABB vt (h p)) else h)
              in (case computeAABB isIdentity h' obj of
                    Inl e \<Rightarrow> Inl e
                  | Inr obj' \<Rightarrow> Inr (h', obj')))))"

text \<open>
  The three constructors. The members that an initialiser list does not name (\<open>aabb\<close>,
  and \<open>t\<close> in the first) are built by the default constructors of \<^verbatim>\<open>AABB\<close> and
  \<^verbatim>\<open>Transform3f\<close>, which are not part of these sources: the model takes them from the
  storage \<open>raw\<close> that the constructor runs on.
\<close>

definition CollisionObject_ctor ::
  "('a::{plus,minus,times} Matrix3f \<Rightarrow> bool) \<Rightarrow> ('a, ('a, 'z) CollisionGeometry_scheme) virtuals
     \<Rightarrow> 'a CollisionObject \<Rightarrow> addr option \<Rightarrow> bool \<Rightarrow> ('a, 'z) store
     \<Rightarrow> error + (('a, 'z) store \<times> 'a CollisionObject)" where
  "CollisionObject_ctor isIdentity vt raw cgeom_v compute_local_aabb h =
     init isIdentity vt compute_local_aabb
       (h, raw\<lparr>cgeom := cgeom_v, user_data_obj := None\<rparr>)"

definition CollisionObject_ctor_tf ::
  "('a::{plus,minus,times} Matrix3f \<Rightarrow> bool) \<Rightarrow> ('a, ('a, 'z) CollisionGeometry_scheme) virtuals
     \<Rightarrow> 'a CollisionObject \<Rightarrow> addr option \<Rightarrow> 'a Transform3f \<Rightarrow> bool \<Rightarrow> ('a, 'z) store
     \<Rightarrow> error + (('a, 'z) store \<times> 'a CollisionObject)" where
  "CollisionObject_ctor_tf isIdentity vt raw cgeom_v tf compute_local_aabb h =
     init isIdentity vt compute_local_aabb
       (h, raw\<lparr>cgeom := cgeom_v, t := tf, user_data_obj := None\<rparr>)"

definition CollisionObject_ctor_RT ::
  "('a::{plus,minus,times} Matrix3f \<Rightarrow> bool) \<Rightarrow> ('a, ('a, 'z) CollisionGeometry_scheme) virtuals
     \<Rightarrow> 'a CollisionObject \<Rightarrow> addr option \<Rightarrow> 'a Matrix3f \<Rightarrow> 'a Vec3f \<Rightarrow> bool
     \<Rightarrow> ('a, 'z) store \<Rightarrow> error + (('a, 'z) store \<times> 'a CollisionObject)" where
  "CollisionObject_ctor_RT isIdentity vt raw cgeom_v R T compute_local_aabb h =
     init isIdentity vt compute_local_aabb
       (h, raw\<lparr>cgeom := cgeom_v, t := \<lparr>getRotation = R, getTranslation = T\<rparr>,
               user_data_obj := None\<rparr>)"

definition setUserData :: "addr option \<Rightarrow> 'a CollisionObject \<Rightarrow> 'a CollisionObject" where
  "setUserData data obj = obj\<lparr>user_data_obj := data\<rparr>"

definition setRotation :: "'a Matrix3f \<Rightarrow> 'a CollisionObject \<Rightarrow> 'a CollisionObject" where
  "setRotation R obj = obj\<lparr>t := Transform3f_setRotation R (t obj)\<rparr>"

definition setTranslation :: "'a Vec3f \<Rightarrow> 'a CollisionObject \<Rightarrow> 'a CollisionObject" where
  "setTranslation T obj = obj\<lparr>t := Transform3f_setTranslation T (t obj)\<rparr>"

definition setTransform_RT ::
  "'a Matrix3f \<Rightarrow> 'a Vec3f \<Rightarrow> 'a CollisionObject \<Rightarrow> 'a CollisionObject" where
  "setTransform_RT R T obj = obj\<lparr>t := Transform3f_setTransform R T (t obj)\<rparr>"

definition setTransform :: "'a Transform3f \<Rightarrow> 'a CollisionObject \<Rightarrow> 'a CollisionObject" where
  "setTransform tf obj = obj\<lparr>t := tf\<rparr>"

definition setIdentityTransform :: "'a::{zero,one} CollisionObject \<Rightarrow> 'a CollisionObject" where
  "setIdentityTransform obj = obj\<lparr>t := Transform3f_setIdentity (t obj)\<rparr>"

text \<open>
  \<^verbatim>\<open>setCollisionGeometry\<close>. The test compares the two raw pointers.
\<close>

definition setCollisionGeometry ::
  "('a::{plus,minus,times} Matrix3f \<Rightarrow> bool) \<Rightarrow> ('a, ('a, 'z) CollisionGeometry_scheme) virtuals
     \<Rightarrow> addr option \<Rightarrow> bool \<Rightarrow> ('a, 'z) store \<times> 'a CollisionObject
     \<Rightarrow> error + (('a, 'z) store \<times> 'a CollisionObject)" where
  "setCollisionGeometry isIdentity vt collision_geometry compute_local_aabb s =
     (case s of (h, obj) \<Rightarrow>
        (if collision_geometry \<noteq> cgeom obj then
           init isIdentity vt compute_local_aabb (h, obj\<lparr>cgeom := collision_geometry\<rparr>)
         else Inr (h, obj)))"

section \<open>The distance queries\<close>

text \<open>
  The overloads of \<^verbatim>\<open>distance\<close> and of \<^verbatim>\<open>ComputeDistance::operator()\<close> that take a
  \<^verbatim>\<open>const DistanceRequest&\<close> are declared in \<^verbatim>\<open>distance.h\<close> and defined outside these
  sources, as \<^verbatim>\<open>QueryRequest::updateGuess\<close> is; they are parameters of the model. A
  query \<open>f\<close> reads the request, takes the result it has to fill and either fails (an
  exception, \<open>Inl\<close>) or returns the distance with the result filled. The inline overloads
  with a mutable request are the three functions below; they return the distance, the
  request and the result as they leave them.
\<close>

definition distance_obj ::
  "('o \<Rightarrow> 'o \<Rightarrow> 'rq \<Rightarrow> 'rs \<Rightarrow> 'e + ('a \<times> 'rs)) \<Rightarrow> ('rq \<Rightarrow> 'rs \<Rightarrow> 'rq)
     \<Rightarrow> 'o \<Rightarrow> 'o \<Rightarrow> 'rq \<Rightarrow> 'rs \<Rightarrow> 'e + ('a \<times> 'rq \<times> 'rs)" where
  "distance_obj distance_const updateGuess o1 o2 request result =
     (case distance_const o1 o2 request result of
        Inl e \<Rightarrow> Inl e
      | Inr (res, result') \<Rightarrow> Inr (res, updateGuess request result', result'))"

definition distance_geom ::
  "('g \<Rightarrow> 'tf \<Rightarrow> 'g \<Rightarrow> 'tf \<Rightarrow> 'rq \<Rightarrow> 'rs \<Rightarrow> 'e + ('a \<times> 'rs)) \<Rightarrow> ('rq \<Rightarrow> 'rs \<Rightarrow> 'rq)
     \<Rightarrow> 'g \<Rightarrow> 'tf \<Rightarrow> 'g \<Rightarrow> 'tf \<Rightarrow> 'rq \<Rightarrow> 'rs \<Rightarrow> 'e + ('a \<times> 'rq \<times> 'rs)" where
  "distance_geom distance_const updateGuess o1 tf1 o2 tf2 request result =
     (case distance_const o1 tf1 o2 tf2 request result of
        Inl e \<Rightarrow> Inl e
      | Inr (res, result') \<Rightarrow> Inr (res, updateGuess request result', result'))"

definition ComputeDistance_call ::
  "('cd \<Rightarrow> 'tf \<Rightarrow> 'tf \<Rightarrow> 'rq \<Rightarrow> 'rs \<Rightarrow> 'e + ('a \<times> 'rs)) \<Rightarrow> ('rq \<Rightarrow> 'rs \<Rightarrow> 'rq)
     \<Rightarrow> 'cd \<Rightarrow> 'tf \<Rightarrow> 'tf \<Rightarrow> 'rq \<Rightarrow> 'rs \<Rightarrow> 'e + ('a \<times> 'rq \<times> 'rs)" where
  "ComputeDistance_call call_const updateGuess this tf1 tf2 request result =
     (case call_const this tf1 tf2 request result of
        Inl e \<Rightarrow> Inl e
      | Inr (res, result') \<Rightarrow> Inr (res, updateGuess request result', result'))"

section \<open>The identity test of the rotation\<close>

text \<open>
  \<^verbatim>\<open>computeAABB\<close> calls \<^verbatim>\<open>isIdentity()\<close> of Eigen on the rotation, with the default
  precision. Eigen is not part of these sources; this is the test as the library defines
  it. \<^verbatim>\<open>isIdentity(prec)\<close> asks of every diagonal coefficient \<open>x\<close> that
  \<^verbatim>\<open>isApprox(x, 1, prec)\<close>, which is \<open>|x - 1| \<le> min(|x|, |1|) * prec\<close>, and of every other
  coefficient that \<^verbatim>\<open>isMuchSmallerThan(x, 1, prec)\<close>, which is \<open>|x| \<le> |1| * prec\<close>; the
  default precision of \<^verbatim>\<open>double\<close> is \<open>1e-12\<close>. The test is approximate: a matrix
  close enough to the identity passes it.
\<close>

fun fcl_abs :: "FCL_REAL \<Rightarrow> FCL_REAL" where
  "fcl_abs NaN = NaN"
| "fcl_abs MInf = PInf"
| "fcl_abs PInf = PInf"
| "fcl_abs (Finite x) = Finite \<bar>x\<bar>"

definition fcl_min :: "FCL_REAL \<Rightarrow> FCL_REAL \<Rightarrow> FCL_REAL" where
  "fcl_min a b = (if b < a then b else a)"

definition isApprox :: "FCL_REAL \<Rightarrow> FCL_REAL \<Rightarrow> FCL_REAL \<Rightarrow> bool" where
  "isApprox x y prec = (fcl_abs (x - y) \<le> fcl_min (fcl_abs x) (fcl_abs y) * prec)"

definition isMuchSmallerThan :: "FCL_REAL \<Rightarrow> FCL_REAL \<Rightarrow> FCL_REAL \<Rightarrow> bool" where
  "isMuchSmallerThan x y prec = (fcl_abs x \<le> fcl_abs y * prec)"

fun isIdentity_prec :: "FCL_REAL \<Rightarrow> FCL_REAL Matrix3f \<Rightarrow> bool" where
  "isIdentity_prec prec (Matrix3f a00 a01 a02 a10 a11 a12 a20 a21 a22) =
     (isApprox a00 1 prec \<and> isMuchSmallerThan a10 1 prec \<and> isMuchSmallerThan a20 1 prec
      \<and> isMuchSmallerThan a01 1 prec \<and> isApprox a11 1 prec \<and> isMuchSmallerThan a21 1 prec
      \<and> isMuchSmallerThan a02 1 prec \<and> isMuchSmallerThan a12 1 prec \<and> isApprox a22 1 prec)"

definition dummy_precision :: FCL_REAL where
  "dummy_precision = Finite (1 / 10 ^ 12)"

definition isIdentity_Eigen :: "FCL_REAL Matrix3f \<Rightarrow> bool" where
  "isIdentity_Eigen M = isIdentity_prec dummy_precision M"

section \<open>Example inputs\<close>

text \<open>
  A test double for the geometry: it counts the calls of \<^verbatim>\<open>computeLocalAABB\<close>, which
  sets the local bound of a box with corners \<open>(0, -1, -1)\<close> and \<open>(2, 1, 1)\<close> and a
  sphere of radius 2 around \<open>(1, 0, 0)\<close>. It overrides no mass property.
\<close>

record 'a CountingGeometry = "'a CollisionGeometry" +
  calls :: nat

definition CountingGeometry_computeLocalAABB ::
  "FCL_REAL CountingGeometry \<Rightarrow> FCL_REAL CountingGeometry" where
  "CountingGeometry_computeLocalAABB g =
     g\<lparr>aabb_center := Vec3f (Finite 1) (Finite 0) (Finite 0),
       aabb_radius := Finite 2,
       aabb_local := \<lparr>min_v = Vec3f (Finite 0) (Finite (- 1)) (Finite (- 1)),
                      max_v = Vec3f (Finite 2) (Finite 1) (Finite 1)\<rparr>,
       calls := Suc (calls g)\<rparr>"

definition counting_virtuals :: "(FCL_REAL, FCL_REAL CountingGeometry) virtuals" where
  "counting_virtuals = CollisionGeometry_virtuals CountingGeometry_computeLocalAABB"

definition example_geometry :: "FCL_REAL CountingGeometry" where
  "example_geometry =
     \<lparr>aabb_center = Vec3f (Finite 1) (Finite 0) (Finite 0),
      aabb_radius = Finite 2,
      aabb_local = \<lparr>min_v = Vec3f (Finite 0) (Finite (- 1)) (Finite (- 1)),
                     max_v = Vec3f (Finite 2) (Finite 1) (Finite 1)\<rparr>,
      user_data = None,
      cost_density = Finite 1,
      threshold_occupied = Finite 1,
      threshold_free = Finite 0,
      calls = 0\<rparr>"

text \<open>A store with that geometry, not yet counted, at every address.\<close>

definition example_store :: "(FCL_REAL, unit CountingGeometry_ext) store" where
  "example_store = (\<lambda>p. example_geometry)"

text \<open>One possible identity test: equality with the identity matrix, no tolerance.\<close>

definition isIdentity_exact :: "FCL_REAL Matrix3f \<Rightarrow> bool" where
  "isIdentity_exact M = (M = Matrix3f_Identity)"

text \<open>The quarter turn about the third axis.\<close>

definition rotation_z_90 :: "FCL_REAL Matrix3f" where
  "rotation_z_90 = Matrix3f (Finite 0) (Finite (- 1)) (Finite 0)
                            (Finite 1) (Finite 0) (Finite 0)
                            (Finite 0) (Finite 0) (Finite 1)"

text \<open>
  An object on the geometry at address 0, moved by \<open>(5, 0, 0)\<close>, with the world bound
  that belongs to this transform.
\<close>

definition example_object :: "FCL_REAL CollisionObject" where
  "example_object =
     \<lparr>cgeom = Some 0,
      t = \<lparr>getRotation = Matrix3f_Identity,
           getTranslation = Vec3f (Finite 5) (Finite 0) (Finite 0)\<rparr>,
      aabb = \<lparr>min_v = Vec3f (Finite 5) (Finite (- 1)) (Finite (- 1)),
               max_v = Vec3f (Finite 7) (Finite 1) (Finite 1)\<rparr>,
      user_data_obj = None\<rparr>"

text \<open>Storage for an object under construction.\<close>

definition raw_object :: "FCL_REAL CollisionObject" where
  "raw_object =
     \<lparr>cgeom = None,
      t = \<lparr>getRotation = Matrix3f_Identity, getTranslation = Vec3f_Zero\<rparr>,
      aabb = \<lparr>min_v = Vec3f_Zero, max_v = Vec3f_Zero\<rparr>,
      user_data_obj = None\<rparr>"

text \<open>
  Two classes that override the mass properties and keep the centre of mass at the
  origin: a cube of side 2 and unit density, and a slab that is unbounded along the
  first axis, whose volume and whose moments of inertia are infinite.
\<close>

definition cube_virtuals :: "(FCL_REAL, unit) virtuals" where
  "cube_virtuals =
     \<lparr>computeLocalAABB = (\<lambda>g. g),
      computeCOM = (\<lambda>g. Vec3f_Zero),
      computeMomentofInertia = (\<lambda>g.
        Matrix3f (Finite (16 / 3)) (Finite 0) (Finite 0)
                 (Finite 0) (Finite (16 / 3)) (Finite 0)
                 (Finite 0) (Finite 0) (Finite (16 / 3))),
      computeVolume = (\<lambda>g. Finite 8)\<rparr>"

definition slab_virtuals :: "(FCL_REAL, unit) virtuals" where
  "slab_virtuals =
     \<lparr>computeLocalAABB = (\<lambda>g. g),
      computeCOM = (\<lambda>g. Vec3f_Zero),
      computeMomentofInertia = (\<lambda>g.
        Matrix3f PInf (Finite 0) (Finite 0)
                 (Finite 0) PInf (Finite 0)
                 (Finite 0) (Finite 0) PInf),
      computeVolume = (\<lambda>g. PInf)\<rparr>"

text \<open>
  A rotation about the third axis by the small angle whose half has the tangent
  \<open>1 / 2 ^ 42\<close>: its cosine is \<open>(2 ^ 84 - 1) / (2 ^ 84 + 1)\<close> and its sine is
  \<open>2 ^ 43 / (2 ^ 84 + 1)\<close>. It is not the identity.
\<close>

definition rotation_z_tiny :: "FCL_REAL Matrix3f" where
  "rotation_z_tiny =
     Matrix3f (Finite ((2 ^ 84 - 1) / (2 ^ 84 + 1))) (Finite (- (2 ^ 43 / (2 ^ 84 + 1)))) (Finite 0)
              (Finite (2 ^ 43 / (2 ^ 84 + 1))) (Finite ((2 ^ 84 - 1) / (2 ^ 84 + 1))) (Finite 0)
              (Finite 0) (Finite 0) (Finite 1)"

section \<open>Arithmetic of the scalar model\<close>

lemma Finite_arith:
  "Finite x + Finite y = Finite (x + y)"
  "Finite x - Finite y = Finite (x - y)"
  "Finite x * Finite y = Finite (x * y)"
  "- Finite x = Finite (- x)"
  "(Finite x \<le> Finite y) = (x \<le> y)"
  "(Finite x < Finite y) = (x < y)"
  by (simp_all add: plus_FCL_REAL_def minus_FCL_REAL_def times_FCL_REAL_def
        uminus_FCL_REAL_def less_eq_FCL_REAL_def less_FCL_REAL_def)

lemma plus_Finite_0: "a + Finite 0 = a"
  by (cases a) (simp_all add: plus_FCL_REAL_def)

lemma minus_Finite_0: "a - Finite 0 = a"
  by (cases a) (simp_all add: minus_FCL_REAL_def)

lemma NaN_absorbs:
  "NaN + a = NaN" "a + NaN = NaN" "NaN - a = NaN" "a - NaN = NaN" "NaN * a = NaN" "a * NaN = NaN"
  by (cases a; simp add: plus_FCL_REAL_def minus_FCL_REAL_def times_FCL_REAL_def)+

lemma PInf_arith:
  "PInf * Finite 0 = NaN" "Finite 0 * PInf = NaN"
  by (simp_all add: times_FCL_REAL_def)

lemma less_eq_FCL_REAL_refl: "a \<noteq> NaN \<Longrightarrow> a \<le> a"
  by (cases a) (simp_all add: less_eq_FCL_REAL_def)

section \<open>Unfolding the object operations\<close>

lemma AABB_both_corners: "bv\<lparr>min_v := a, max_v := b\<rparr> = \<lparr>min_v = a, max_v = b\<rparr>"
  by (cases bv) simp

lemma computeAABB_Some:
  "cgeom obj = Some p \<Longrightarrow>
   computeAABB isIdentity h obj =
     Inr (obj\<lparr>aabb :=
       (if isIdentity (getRotation (t obj))
        then translate (aabb_local (h p)) (getTranslation (t obj))
        else (aabb obj)\<lparr>min_v := Vec3f_minus (transform (t obj) (aabb_center (h p)))
                                       (Vec3f_Constant (aabb_radius (h p))),
                       max_v := Vec3f_plus (transform (t obj) (aabb_center (h p)))
                                      (Vec3f_Constant (aabb_radius (h p)))\<rparr>)\<rparr>)"
  by (simp add: computeAABB_def Let_def)

lemma init_None: "cgeom obj = None \<Longrightarrow> init isIdentity vt flag (h, obj) = Inr (h, obj)"
  by (simp add: init_def)

lemma init_Some:
  "cgeom obj = Some p \<Longrightarrow>
   init isIdentity vt flag (h, obj) =
     map_sum id (Pair (if flag then h(p := computeLocalAABB vt (h p)) else h))
       (computeAABB isIdentity (if flag then h(p := computeLocalAABB vt (h p)) else h) obj)"
  by (simp add: init_def Let_def map_sum_def split: sum.splits)

lemma example_object_fields:
  "cgeom example_object = Some 0"
  "getRotation (t example_object) = Matrix3f_Identity"
  "getTranslation (t example_object) = Vec3f (Finite 5) (Finite 0) (Finite 0)"
  "aabb example_object = \<lparr>min_v = Vec3f (Finite 5) (Finite (- 1)) (Finite (- 1)),
                           max_v = Vec3f (Finite 7) (Finite 1) (Finite 1)\<rparr>"
  by (simp_all add: example_object_def)

lemma example_store_fields:
  "aabb_local (example_store p) = \<lparr>min_v = Vec3f (Finite 0) (Finite (- 1)) (Finite (- 1)),
                                    max_v = Vec3f (Finite 2) (Finite 1) (Finite 1)\<rparr>"
  "aabb_center (example_store p) = Vec3f (Finite 1) (Finite 0) (Finite 0)"
  "aabb_radius (example_store p) = Finite 2"
  "calls (example_store p) = 0"
  by (simp_all add: example_store_def example_geometry_def)

lemma rotation_z_90_not_identity: "\<not> isIdentity_exact rotation_z_90"
  by (simp add: isIdentity_exact_def rotation_z_90_def Matrix3f_Identity_def
        zero_FCL_REAL_def one_FCL_REAL_def)

lemma rotation_z_90_fails_Eigen: "\<not> isIdentity_Eigen rotation_z_90"
  by (simp add: isIdentity_Eigen_def rotation_z_90_def dummy_precision_def isApprox_def
        isMuchSmallerThan_def fcl_min_def one_FCL_REAL_def Finite_arith)

lemma rotation_z_tiny_passes_Eigen: "isIdentity_Eigen rotation_z_tiny"
  by (simp add: isIdentity_Eigen_def rotation_z_tiny_def dummy_precision_def isApprox_def
        isMuchSmallerThan_def fcl_min_def one_FCL_REAL_def Finite_arith)

lemma rotation_z_tiny_not_identity: "rotation_z_tiny \<noteq> Matrix3f_Identity"
  by (simp add: rotation_z_tiny_def Matrix3f_Identity_def zero_FCL_REAL_def one_FCL_REAL_def)

lemma rotation_z_tiny_unit:
  "coeff rotation_z_tiny 0 0 * coeff rotation_z_tiny 0 0
     + coeff rotation_z_tiny 1 0 * coeff rotation_z_tiny 1 0 = 1"
  by (simp add: rotation_z_tiny_def Finite_arith one_FCL_REAL_def)

section \<open>The object and its cached world bound\<close>

text \<open>
  C1. The setters of the transform (\<^verbatim>\<open>setRotation\<close>, \<^verbatim>\<open>setTranslation\<close>, both
  \<^verbatim>\<open>setTransform\<close>) leave the cached world bound as it was: \<^verbatim>\<open>getAABB\<close> after the
  call returns what it returned before, and so it does after \<^verbatim>\<open>setIdentityTransform\<close>
  and \<^verbatim>\<open>setUserData\<close>. The bound is computed again by the three constructors and by
  \<^verbatim>\<open>setCollisionGeometry\<close> on a geometry that differs from the current one: their object
  is the one that \<^verbatim>\<open>computeAABB\<close> returns, on the store after the optional
  \<^verbatim>\<open>computeLocalAABB\<close>.
\<close>

theorem setters_keep_cached_aabb:
  fixes obj :: "'a::{plus,minus,times,zero,one} CollisionObject"
  shows
  "getAABB (setRotation R obj) = getAABB obj
   \<and> getAABB (setTranslation T obj) = getAABB obj
   \<and> getAABB (setTransform_RT R T obj) = getAABB obj
   \<and> getAABB (setTransform tf obj) = getAABB obj
   \<and> getAABB (setIdentityTransform obj) = getAABB obj
   \<and> getAABB (setUserData d obj) = getAABB obj
   \<and> map_sum id snd (CollisionObject_ctor isIdentity vt raw (Some p) flag h)
       = computeAABB isIdentity (if flag then h(p := computeLocalAABB vt (h p)) else h)
           (raw\<lparr>cgeom := Some p, user_data_obj := None\<rparr>)
   \<and> map_sum id snd (CollisionObject_ctor_tf isIdentity vt raw (Some p) tf flag h)
       = computeAABB isIdentity (if flag then h(p := computeLocalAABB vt (h p)) else h)
           (raw\<lparr>cgeom := Some p, t := tf, user_data_obj := None\<rparr>)
   \<and> map_sum id snd (CollisionObject_ctor_RT isIdentity vt raw (Some p) R T flag h)
       = computeAABB isIdentity (if flag then h(p := computeLocalAABB vt (h p)) else h)
           (raw\<lparr>cgeom := Some p, t := \<lparr>getRotation = R, getTranslation = T\<rparr>,
                 user_data_obj := None\<rparr>)
   \<and> map_sum id snd (setCollisionGeometry isIdentity vt (Some p) flag (h, obj))
       = (if Some p \<noteq> cgeom obj
          then computeAABB isIdentity (if flag then h(p := computeLocalAABB vt (h p)) else h)
                 (obj\<lparr>cgeom := Some p\<rparr>)
          else Inr obj)"
  by (simp add: getAABB_def setRotation_def setTranslation_def setTransform_RT_def
        setTransform_def setIdentityTransform_def setUserData_def
        CollisionObject_ctor_def CollisionObject_ctor_tf_def CollisionObject_ctor_RT_def
        setCollisionGeometry_def init_Some sum.map_comp comp_def sum.map_ident)

text \<open>
  The sequence of the manual-sync contract on the example object: after the quarter turn
  is set, the bound read is the old one, and it differs from the bound that an explicit
  \<^verbatim>\<open>computeAABB\<close> then stores.
\<close>

theorem setters_keep_cached_aabb_witness:
  "getAABB (setRotation rotation_z_90 example_object)
     = \<lparr>min_v = Vec3f (Finite 5) (Finite (- 1)) (Finite (- 1)),
        max_v = Vec3f (Finite 7) (Finite 1) (Finite 1)\<rparr>
   \<and> map_sum id getAABB
       (computeAABB isIdentity_exact example_store (setRotation rotation_z_90 example_object))
     = Inr \<lparr>min_v = Vec3f (Finite 3) (Finite (- 1)) (Finite (- 2)),
            max_v = Vec3f (Finite 7) (Finite 3) (Finite 2)\<rparr>"
proof -
  have stale: "getAABB (setRotation rotation_z_90 example_object) = getAABB example_object"
    using setters_keep_cached_aabb [where obj = example_object and R = rotation_z_90]
    by blast
  have fresh: "map_sum id getAABB
       (computeAABB isIdentity_exact example_store (setRotation rotation_z_90 example_object))
     = Inr \<lparr>min_v = Vec3f (Finite 3) (Finite (- 1)) (Finite (- 2)),
            max_v = Vec3f (Finite 7) (Finite 3) (Finite 2)\<rparr>"
    using rotation_z_90_not_identity
    by (simp add: computeAABB_def setRotation_def Transform3f_setRotation_def
          example_object_fields example_store_fields transform_def rotation_z_90_def
          Vec3f_Constant_def getAABB_def Finite_arith)
  show ?thesis
    using stale fresh by (simp add: getAABB_def example_object_fields)
qed

text \<open>
  C2. When \<^verbatim>\<open>isIdentity()\<close> holds of the rotation of the transform, \<^verbatim>\<open>computeAABB\<close> on
  an object with a geometry whose local box is \<open>[lo, hi]\<close> stores the box
  \<open>[lo + T, hi + T]\<close>, where \<open>T\<close> is the translation of the transform, whatever \<open>T\<close>
  is; nothing else of the object changes.
\<close>

theorem computeAABB_identity_rotation:
  assumes "isIdentity (getRotation (t obj))"
    and "cgeom obj = Some p"
    and "aabb_local (h p) = \<lparr>min_v = lo, max_v = hi\<rparr>"
  shows "computeAABB isIdentity h obj =
           Inr (obj\<lparr>aabb := \<lparr>min_v = Vec3f_plus lo (getTranslation (t obj)),
                              max_v = Vec3f_plus hi (getTranslation (t obj))\<rparr>\<rparr>)"
  using assms by (simp add: computeAABB_def translate_def)

theorem computeAABB_identity_rotation_witness:
  "isIdentity_exact (getRotation (t example_object))
   \<and> cgeom example_object = Some 0
   \<and> aabb_local (example_store 0) =
        \<lparr>min_v = Vec3f (Finite 0) (Finite (- 1)) (Finite (- 1)),
         max_v = Vec3f (Finite 2) (Finite 1) (Finite 1)\<rparr>
   \<and> computeAABB isIdentity_exact example_store example_object =
        Inr (example_object\<lparr>aabb := \<lparr>min_v = Vec3f (Finite 5) (Finite (- 1)) (Finite (- 1)),
                                        max_v = Vec3f (Finite 7) (Finite 1) (Finite 1)\<rparr>\<rparr>)"
proof -
  have a: "isIdentity_exact (getRotation (t example_object))"
    by (simp add: isIdentity_exact_def example_object_fields)
  have b: "cgeom example_object = Some 0"
    by (simp add: example_object_fields)
  have c: "aabb_local (example_store 0) =
        \<lparr>min_v = Vec3f (Finite 0) (Finite (- 1)) (Finite (- 1)),
         max_v = Vec3f (Finite 2) (Finite 1) (Finite 1)\<rparr>"
    by (simp add: example_store_fields)
  show ?thesis
    using a b c
      computeAABB_identity_rotation [where isIdentity = isIdentity_exact
        and obj = example_object and p = 0 and h = example_store, OF a b c]
    by (simp add: example_object_fields Finite_arith)
qed

text \<open>
  C3, as the spec states it: whenever the rotation is not the identity, \<^verbatim>\<open>computeAABB\<close>
  stores the box of the transformed local sphere. The small rotation of the examples is
  a rotation (the squares of its cosine and sine add up to 1) and is not the identity,
  but it passes the approximate test of Eigen: on the example object turned by it,
  \<^verbatim>\<open>computeAABB\<close> stores the translated local box, with corners \<open>(5, -1, -1)\<close> and
  \<open>(7, 1, 1)\<close>, which is not the box of the sphere of radius 2 around the transformed
  centre.
\<close>

theorem computeAABB_near_identity_counterexample:
  "getRotation (t (setRotation rotation_z_tiny example_object)) \<noteq> Matrix3f_Identity
   \<and> coeff rotation_z_tiny 0 0 * coeff rotation_z_tiny 0 0
       + coeff rotation_z_tiny 1 0 * coeff rotation_z_tiny 1 0 = 1
   \<and> computeAABB isIdentity_Eigen example_store (setRotation rotation_z_tiny example_object)
       = Inr ((setRotation rotation_z_tiny example_object)
               \<lparr>aabb := \<lparr>min_v = Vec3f (Finite 5) (Finite (- 1)) (Finite (- 1)),
                         max_v = Vec3f (Finite 7) (Finite 1) (Finite 1)\<rparr>\<rparr>)
   \<and> computeAABB isIdentity_Eigen example_store (setRotation rotation_z_tiny example_object)
       \<noteq> Inr ((setRotation rotation_z_tiny example_object)
               \<lparr>aabb := \<lparr>min_v = Vec3f_minus
                                   (transform (t (setRotation rotation_z_tiny example_object))
                                      (aabb_center (example_store 0)))
                                   (Vec3f_Constant (aabb_radius (example_store 0))),
                         max_v = Vec3f_plus
                                   (transform (t (setRotation rotation_z_tiny example_object))
                                      (aabb_center (example_store 0)))
                                   (Vec3f_Constant (aabb_radius (example_store 0)))\<rparr>\<rparr>)"
proof -
  let ?obj = "setRotation rotation_z_tiny example_object"
  have r: "getRotation (t ?obj) = rotation_z_tiny"
    by (simp add: setRotation_def Transform3f_setRotation_def)
  have tr: "getTranslation (t ?obj) = Vec3f (Finite 5) (Finite 0) (Finite 0)"
    by (simp add: setRotation_def Transform3f_setRotation_def example_object_fields)
  have g: "cgeom ?obj = Some 0"
    by (simp add: setRotation_def example_object_fields)
  have box: "computeAABB isIdentity_Eigen example_store ?obj
       = Inr (?obj\<lparr>aabb := \<lparr>min_v = Vec3f (Finite 5) (Finite (- 1)) (Finite (- 1)),
                               max_v = Vec3f (Finite 7) (Finite 1) (Finite 1)\<rparr>\<rparr>)"
    using rotation_z_tiny_passes_Eigen
    by (simp add: computeAABB_def r tr g translate_def example_store_fields Finite_arith)
  have sphere: "Vec3f_minus (transform (t ?obj) (aabb_center (example_store 0)))
                  (Vec3f_Constant (aabb_radius (example_store 0)))
                \<noteq> Vec3f (Finite 5) (Finite (- 1)) (Finite (- 1))"
    unfolding transform_def r tr
    by (simp add: example_store_fields rotation_z_tiny_def Vec3f_Constant_def Finite_arith)
  have differ: "?obj\<lparr>aabb := \<lparr>min_v = Vec3f (Finite 5) (Finite (- 1)) (Finite (- 1)),
                               max_v = Vec3f (Finite 7) (Finite 1) (Finite 1)\<rparr>\<rparr>
       \<noteq> ?obj\<lparr>aabb := \<lparr>min_v = Vec3f_minus
                                   (transform (t ?obj) (aabb_center (example_store 0)))
                                   (Vec3f_Constant (aabb_radius (example_store 0))),
                         max_v = Vec3f_plus
                                   (transform (t ?obj) (aabb_center (example_store 0)))
                                   (Vec3f_Constant (aabb_radius (example_store 0)))\<rparr>\<rparr>"
  proof
    assume "?obj\<lparr>aabb := \<lparr>min_v = Vec3f (Finite 5) (Finite (- 1)) (Finite (- 1)),
                               max_v = Vec3f (Finite 7) (Finite 1) (Finite 1)\<rparr>\<rparr>
       = ?obj\<lparr>aabb := \<lparr>min_v = Vec3f_minus
                                   (transform (t ?obj) (aabb_center (example_store 0)))
                                   (Vec3f_Constant (aabb_radius (example_store 0))),
                         max_v = Vec3f_plus
                                   (transform (t ?obj) (aabb_center (example_store 0)))
                                   (Vec3f_Constant (aabb_radius (example_store 0)))\<rparr>\<rparr>"
    then have "min_v (aabb (?obj\<lparr>aabb := \<lparr>min_v = Vec3f (Finite 5) (Finite (- 1)) (Finite (- 1)),
                               max_v = Vec3f (Finite 7) (Finite 1) (Finite 1)\<rparr>\<rparr>))
       = min_v (aabb (?obj\<lparr>aabb := \<lparr>min_v = Vec3f_minus
                                   (transform (t ?obj) (aabb_center (example_store 0)))
                                   (Vec3f_Constant (aabb_radius (example_store 0))),
                         max_v = Vec3f_plus
                                   (transform (t ?obj) (aabb_center (example_store 0)))
                                   (Vec3f_Constant (aabb_radius (example_store 0)))\<rparr>\<rparr>))"
      by (rule arg_cong)
    with sphere show False by simp
  qed
  show ?thesis
    using rotation_z_tiny_not_identity rotation_z_tiny_unit box differ
    by (simp add: r)
qed

text \<open>
  C3, amended. When the rotation \<open>R\<close> of the transform does not pass the test
  \<^verbatim>\<open>isIdentity()\<close> (Eigen's approximate test, which a rotation close enough to the
  identity passes as the identity does), \<^verbatim>\<open>computeAABB\<close> on an object with a geometry
  whose local sphere has centre \<open>c\<close> and radius \<open>r\<close> stores the box of the sphere with
  centre \<open>R \<cdot> c + T\<close> and the same radius: its lower corner is the centre minus
  \<open>(r, r, r)\<close> and its upper corner the centre plus \<open>(r, r, r)\<close>, exactly.
\<close>

theorem computeAABB_other_rotation:
  assumes "\<not> isIdentity (getRotation (t obj))"
    and "cgeom obj = Some p"
    and "aabb_radius (h p) = r"
    and "Vec3f_plus (Matrix3f_times_Vec3f (getRotation (t obj)) (aabb_center (h p)))
           (getTranslation (t obj)) = center"
  shows "computeAABB isIdentity h obj =
           Inr (obj\<lparr>aabb := \<lparr>min_v = Vec3f_minus center (Vec3f r r r),
                              max_v = Vec3f_plus center (Vec3f r r r)\<rparr>\<rparr>)"
  using assms
  by (simp add: computeAABB_def transform_def Vec3f_Constant_def Let_def AABB_both_corners)

theorem computeAABB_other_rotation_witness:
  "\<not> isIdentity_Eigen (getRotation (t (setRotation rotation_z_90 example_object)))
   \<and> cgeom (setRotation rotation_z_90 example_object) = Some 0
   \<and> aabb_radius (example_store 0) = Finite 2
   \<and> Vec3f_plus (Matrix3f_times_Vec3f
          (getRotation (t (setRotation rotation_z_90 example_object)))
          (aabb_center (example_store 0)))
        (getTranslation (t (setRotation rotation_z_90 example_object)))
      = Vec3f (Finite 5) (Finite 1) (Finite 0)
   \<and> computeAABB isIdentity_Eigen example_store (setRotation rotation_z_90 example_object) =
        Inr ((setRotation rotation_z_90 example_object)
               \<lparr>aabb := \<lparr>min_v = Vec3f (Finite 3) (Finite (- 1)) (Finite (- 2)),
                         max_v = Vec3f (Finite 7) (Finite 3) (Finite 2)\<rparr>\<rparr>)"
proof -
  let ?obj = "setRotation rotation_z_90 example_object"
  have a: "\<not> isIdentity_Eigen (getRotation (t ?obj))"
    using rotation_z_90_fails_Eigen
    by (simp add: setRotation_def Transform3f_setRotation_def)
  have b: "cgeom ?obj = Some 0"
    by (simp add: example_object_fields setRotation_def)
  have c: "aabb_radius (example_store 0) = Finite 2"
    by (simp add: example_store_fields)
  have d: "Vec3f_plus (Matrix3f_times_Vec3f (getRotation (t ?obj))
             (aabb_center (example_store 0))) (getTranslation (t ?obj))
           = Vec3f (Finite 5) (Finite 1) (Finite 0)"
    by (simp add: example_object_fields setRotation_def Transform3f_setRotation_def
          rotation_z_90_def example_store_fields Finite_arith)
  show ?thesis
    using a b c d
      computeAABB_other_rotation [where isIdentity = isIdentity_Eigen and obj = ?obj
        and p = 0 and h = example_store, OF a b c d]
    by (simp add: Finite_arith)
qed

text \<open>
  C4, as the spec states it: an operation that receives a null geometry fails fast. It
  does not: the first constructor on a null geometry returns normally, with the store and
  the storage of the object as they were.
\<close>

theorem null_geometry_fail_fast_counterexample:
  "\<not> isl (CollisionObject_ctor isIdentity_exact counting_virtuals raw_object None True
             example_store)
   \<and> CollisionObject_ctor isIdentity_exact counting_virtuals raw_object None True example_store
       = Inr (example_store, raw_object)"
  by (simp add: CollisionObject_ctor_def init_def raw_object_def)

text \<open>
  C4, amended. Each of the three constructors, and \<^verbatim>\<open>setCollisionGeometry\<close>, on a null
  geometry returns normally: it stores the null reference and computes no bound, so that
  the store and the cached world bound are as they were before the call.
\<close>

theorem null_geometry_skips_bounds:
  "CollisionObject_ctor isIdentity vt raw None flag h
     = Inr (h, raw\<lparr>cgeom := None, user_data_obj := None\<rparr>)
   \<and> CollisionObject_ctor_tf isIdentity vt raw None tf flag h
     = Inr (h, raw\<lparr>cgeom := None, t := tf, user_data_obj := None\<rparr>)
   \<and> CollisionObject_ctor_RT isIdentity vt raw None R T flag h
     = Inr (h, raw\<lparr>cgeom := None, t := \<lparr>getRotation = R, getTranslation = T\<rparr>,
                   user_data_obj := None\<rparr>)
   \<and> setCollisionGeometry isIdentity vt None flag (h, obj)
     = Inr (h, obj\<lparr>cgeom := None\<rparr>)"
  by (simp add: CollisionObject_ctor_def CollisionObject_ctor_tf_def
        CollisionObject_ctor_RT_def setCollisionGeometry_def init_None)

text \<open>
  C6, as the spec states it: whenever the new reference differs from the current one,
  the local bound is computed (the flag being set) and then the world bound. For the
  null reference, which differs from the geometry of the example object, neither is:
  no geometry of the store has counted a call and the cached world bound is the old one.
\<close>

theorem setCollisionGeometry_null_counterexample:
  "None \<noteq> cgeom example_object
   \<and> setCollisionGeometry isIdentity_exact counting_virtuals None True
        (example_store, example_object)
      = Inr (example_store, example_object\<lparr>cgeom := None\<rparr>)"
  by (simp add: setCollisionGeometry_def init_None example_object_fields)

text \<open>
  C6, amended. \<^verbatim>\<open>setCollisionGeometry\<close> with the reference that the object already
  holds changes neither the object nor the store, so it computes no local bound. With
  a reference that differs and is not null, it stores the reference, calls
  \<^verbatim>\<open>computeLocalAABB\<close> on the new geometry when the flag is set and only then, and
  stores the world bound that \<^verbatim>\<open>computeAABB\<close> gives on the resulting store. With the
  null reference, when it differs, it stores the reference and computes nothing.
\<close>

theorem setCollisionGeometry_by_identity:
  "(collision_geometry = cgeom obj \<longrightarrow>
      setCollisionGeometry isIdentity vt collision_geometry flag (h, obj) = Inr (h, obj))
   \<and> (collision_geometry = Some p \<and> collision_geometry \<noteq> cgeom obj \<longrightarrow>
      (\<exists>obj'. setCollisionGeometry isIdentity vt collision_geometry flag (h, obj)
                = Inr (if flag then h(p := computeLocalAABB vt (h p)) else h, obj')
             \<and> computeAABB isIdentity (if flag then h(p := computeLocalAABB vt (h p)) else h)
                 (obj\<lparr>cgeom := Some p\<rparr>) = Inr obj'))
   \<and> (collision_geometry = None \<and> collision_geometry \<noteq> cgeom obj \<longrightarrow>
      setCollisionGeometry isIdentity vt collision_geometry flag (h, obj)
        = Inr (h, obj\<lparr>cgeom := None\<rparr>))"
  by (auto simp: setCollisionGeometry_def init_None init_Some computeAABB_Some)

text \<open>
  On the example object, which holds the geometry at address 0: the same reference
  leaves every counter at 0; the geometry at address 1 counts one call with the flag set
  and none without it; the null reference leaves the store alone.
\<close>

theorem setCollisionGeometry_by_identity_witness:
  "Some 0 = cgeom example_object
   \<and> setCollisionGeometry isIdentity_exact counting_virtuals (Some 0) True
        (example_store, example_object) = Inr (example_store, example_object)
   \<and> Some 1 \<noteq> cgeom example_object
   \<and> (\<exists>obj'. setCollisionGeometry isIdentity_exact counting_virtuals (Some 1) True
                (example_store, example_object)
              = Inr (example_store(1 := CountingGeometry_computeLocalAABB (example_store 1)),
                     obj')
            \<and> computeAABB isIdentity_exact
                (example_store(1 := CountingGeometry_computeLocalAABB (example_store 1)))
                (example_object\<lparr>cgeom := Some 1\<rparr>) = Inr obj')
   \<and> calls (CountingGeometry_computeLocalAABB (example_store 1)) = 1
   \<and> (\<exists>obj'. setCollisionGeometry isIdentity_exact counting_virtuals (Some 1) False
                (example_store, example_object) = Inr (example_store, obj')
            \<and> computeAABB isIdentity_exact example_store (example_object\<lparr>cgeom := Some 1\<rparr>)
                = Inr obj')
   \<and> None \<noteq> cgeom example_object
   \<and> setCollisionGeometry isIdentity_exact counting_virtuals None True
        (example_store, example_object) = Inr (example_store, example_object\<lparr>cgeom := None\<rparr>)"
proof -
  have cl: "computeLocalAABB counting_virtuals = CountingGeometry_computeLocalAABB"
    by (simp add: counting_virtuals_def CollisionGeometry_virtuals_def)
  have n: "calls (CountingGeometry_computeLocalAABB (example_store 1)) = 1"
    by (simp add: CountingGeometry_computeLocalAABB_def example_store_fields)
  show ?thesis
    using
      setCollisionGeometry_by_identity [where collision_geometry = "Some 0"
        and obj = example_object and isIdentity = isIdentity_exact and vt = counting_virtuals
        and flag = True and h = example_store and p = 0]
      setCollisionGeometry_by_identity [where collision_geometry = "Some 1"
        and obj = example_object and isIdentity = isIdentity_exact and vt = counting_virtuals
        and flag = True and h = example_store and p = 1]
      setCollisionGeometry_by_identity [where collision_geometry = "Some 1"
        and obj = example_object and isIdentity = isIdentity_exact and vt = counting_virtuals
        and flag = False and h = example_store and p = 1]
      setCollisionGeometry_by_identity [where collision_geometry = None
        and obj = example_object and isIdentity = isIdentity_exact and vt = counting_virtuals
        and flag = True and h = example_store and p = 0]
      n
    by (simp add: example_object_fields cl)
qed

section \<open>The distance queries with a mutable request\<close>

text \<open>
  C7. Each overload with a mutable request (the two functions \<^verbatim>\<open>distance\<close> and
  \<^verbatim>\<open>ComputeDistance::operator()\<close>) returns the scalar that the overload with a
  constant request returns on the same arguments, or fails as it fails; it leaves the
  result as that overload fills it, and the request as \<^verbatim>\<open>updateGuess\<close> leaves it when
  called on the request with the filled result.
\<close>

theorem mutable_request_overloads:
  "map_sum id fst (distance_obj f upd o1 o2 request result)
     = map_sum id fst (f o1 o2 request result)
   \<and> map_sum id (\<lambda>(res, rq, rs). rs) (distance_obj f upd o1 o2 request result)
     = map_sum id snd (f o1 o2 request result)
   \<and> map_sum id (\<lambda>(res, rq, rs). rq) (distance_obj f upd o1 o2 request result)
     = map_sum id (\<lambda>(res, rs). upd request rs) (f o1 o2 request result)
   \<and> map_sum id fst (distance_geom f' upd g1 tf1 g2 tf2 request result)
     = map_sum id fst (f' g1 tf1 g2 tf2 request result)
   \<and> map_sum id (\<lambda>(res, rq, rs). rs) (distance_geom f' upd g1 tf1 g2 tf2 request result)
     = map_sum id snd (f' g1 tf1 g2 tf2 request result)
   \<and> map_sum id (\<lambda>(res, rq, rs). rq) (distance_geom f' upd g1 tf1 g2 tf2 request result)
     = map_sum id (\<lambda>(res, rs). upd request rs) (f' g1 tf1 g2 tf2 request result)
   \<and> map_sum id fst (ComputeDistance_call f'' upd cd tf1 tf2 request result)
     = map_sum id fst (f'' cd tf1 tf2 request result)
   \<and> map_sum id (\<lambda>(res, rq, rs). rs) (ComputeDistance_call f'' upd cd tf1 tf2 request result)
     = map_sum id snd (f'' cd tf1 tf2 request result)
   \<and> map_sum id (\<lambda>(res, rq, rs). rq) (ComputeDistance_call f'' upd cd tf1 tf2 request result)
     = map_sum id (\<lambda>(res, rs). upd request rs) (f'' cd tf1 tf2 request result)"
  by (simp add: distance_obj_def distance_geom_def ComputeDistance_call_def
        split: sum.splits prod.splits)

section \<open>The geometry: occupancy and mass properties\<close>

text \<open>
  C5. \<^verbatim>\<open>isOccupied\<close> is true exactly when \<open>cost_density \<ge> threshold_occupied\<close> and
  \<^verbatim>\<open>isFree\<close> exactly when \<open>cost_density \<le> threshold_free\<close>. A density that compares
  equal (\<^verbatim>\<open>==\<close>) to a threshold satisfies the predicate of that threshold. Nothing
  orders the two thresholds: there is a geometry, with the free threshold above the
  occupied one, that is occupied and free at once.
\<close>

theorem occupancy_thresholds:
  fixes g :: "(FCL_REAL, 'z) CollisionGeometry_scheme"
  shows "(isOccupied g \<longleftrightarrow> cost_density g \<ge> threshold_occupied g)
   \<and> (isFree g \<longleftrightarrow> cost_density g \<le> threshold_free g)
   \<and> (fcl_eq (cost_density g) (threshold_occupied g) \<longrightarrow> isOccupied g)
   \<and> (fcl_eq (cost_density g) (threshold_free g) \<longrightarrow> isFree g)
   \<and> (\<exists>g' :: FCL_REAL CountingGeometry.
         threshold_occupied g' < threshold_free g' \<and> isOccupied g' \<and> isFree g')"
proof -
  let ?g = "example_geometry\<lparr>threshold_free := Finite 2\<rparr>"
  have "threshold_occupied ?g < threshold_free ?g \<and> isOccupied ?g \<and> isFree ?g"
    by (simp add: isOccupied_def isFree_def example_geometry_def Finite_arith)
  then have ex: "\<exists>g' :: FCL_REAL CountingGeometry.
      threshold_occupied g' < threshold_free g' \<and> isOccupied g' \<and> isFree g'"
    by blast
  show ?thesis
    using ex less_eq_FCL_REAL_refl by (auto simp: isOccupied_def isFree_def fcl_eq_def)
qed

theorem occupancy_thresholds_witness:
  "fcl_eq (cost_density (example_geometry\<lparr>threshold_free := Finite 1\<rparr>))
          (threshold_occupied (example_geometry\<lparr>threshold_free := Finite 1\<rparr>))
   \<and> fcl_eq (cost_density (example_geometry\<lparr>threshold_free := Finite 1\<rparr>))
            (threshold_free (example_geometry\<lparr>threshold_free := Finite 1\<rparr>))
   \<and> isOccupied (example_geometry\<lparr>threshold_free := Finite 1\<rparr>)
   \<and> isFree (example_geometry\<lparr>threshold_free := Finite 1\<rparr>)"
proof -
  let ?g = "example_geometry\<lparr>threshold_free := Finite 1\<rparr>"
  have a: "fcl_eq (cost_density ?g) (threshold_occupied ?g)"
    by (simp add: fcl_eq_def example_geometry_def)
  have b: "fcl_eq (cost_density ?g) (threshold_free ?g)"
    by (simp add: fcl_eq_def example_geometry_def)
  show ?thesis
    using a b occupancy_thresholds [of ?g] by blast
qed

text \<open>
  C10. The default constructor sets \<open>cost_density\<close> and \<open>threshold_occupied\<close> to 1 and
  \<open>threshold_free\<close> to 0, so that the new geometry is occupied and not free; it marks
  the local bound as not computed with the radius \<open>-1\<close> and a centre whose three
  coordinates are the largest finite scalar.
\<close>

theorem default_constructed_geometry:
  fixes raw :: "(FCL_REAL, 'z) CollisionGeometry_scheme"
  shows "cost_density (CollisionGeometry_ctor raw) = 1
    \<and> threshold_occupied (CollisionGeometry_ctor raw) = 1
    \<and> threshold_free (CollisionGeometry_ctor raw) = 0
    \<and> isOccupied (CollisionGeometry_ctor raw)
    \<and> \<not> isFree (CollisionGeometry_ctor raw)
    \<and> aabb_radius (CollisionGeometry_ctor raw) = Finite (- 1)
    \<and> aabb_center (CollisionGeometry_ctor raw) = Vec3f FCL_REAL_max FCL_REAL_max FCL_REAL_max"
  by (simp add: CollisionGeometry_ctor_def isOccupied_def isFree_def Vec3f_Constant_def
        zero_FCL_REAL_def one_FCL_REAL_def Finite_arith)

text \<open>
  C9. For a class that overrides no mass property, \<^verbatim>\<open>computeCOM\<close> is the zero vector,
  \<^verbatim>\<open>computeVolume\<close> is zero, \<^verbatim>\<open>computeMomentofInertia\<close> is the matrix with \<^verbatim>\<open>NAN\<close> in
  every entry, and \<^verbatim>\<open>computeMomentofInertiaRelatedToCOM\<close> returns, without failing, a
  matrix with \<^verbatim>\<open>NAN\<close> in every entry as well.
\<close>

theorem default_mass_properties:
  "computeCOM (CollisionGeometry_virtuals cl) g = Vec3f 0 0 0
   \<and> computeVolume (CollisionGeometry_virtuals cl) g = 0
   \<and> computeMomentofInertia (CollisionGeometry_virtuals cl) g
       = Matrix3f NaN NaN NaN NaN NaN NaN NaN NaN NaN
   \<and> computeMomentofInertiaRelatedToCOM (CollisionGeometry_virtuals cl) g
       = Matrix3f NaN NaN NaN NaN NaN NaN NaN NaN NaN"
  by (simp add: CollisionGeometry_virtuals_def CollisionGeometry_computeCOM_def
       CollisionGeometry_computeVolume_def CollisionGeometry_computeMomentofInertia_def
       computeMomentofInertiaRelatedToCOM_def Vec3f_Zero_def Vec3f_Constant_def
       Matrix3f_Constant_def NAN_def NaN_absorbs)

text \<open>
  C8, as the spec states it: whenever the centre of mass is the origin, the inertia about
  the centre of mass is the inertia about the origin. The slab has its centre of mass at
  the origin and an infinite volume; the product of that volume with zero is \<^verbatim>\<open>NAN\<close>,
  and so is every entry of its inertia about the centre of mass, while its inertia about
  the origin has none.
\<close>

theorem inertia_about_com_counterexample:
  "computeCOM slab_virtuals () = Vec3f (Finite 0) (Finite 0) (Finite 0)
   \<and> computeMomentofInertia slab_virtuals ()
       = Matrix3f PInf (Finite 0) (Finite 0) (Finite 0) PInf (Finite 0) (Finite 0) (Finite 0) PInf
   \<and> computeMomentofInertiaRelatedToCOM slab_virtuals ()
       = Matrix3f NaN NaN NaN NaN NaN NaN NaN NaN NaN
   \<and> computeMomentofInertiaRelatedToCOM slab_virtuals ()
       \<noteq> computeMomentofInertia slab_virtuals ()"
  by (simp add: slab_virtuals_def computeMomentofInertiaRelatedToCOM_def Vec3f_Zero_def
        Vec3f_Constant_def zero_FCL_REAL_def Finite_arith PInf_arith NaN_absorbs)

text \<open>
  C8, amended. Whenever the centre of mass is the origin and the volume is finite
  (neither an infinity nor \<^verbatim>\<open>NAN\<close>), the base implementation of
  \<^verbatim>\<open>computeMomentofInertiaRelatedToCOM\<close> returns the matrix of
  \<^verbatim>\<open>computeMomentofInertia\<close>, entry for entry; an entry that is \<^verbatim>\<open>NAN\<close> or infinite
  stays what it is.
\<close>

theorem inertia_about_com_at_origin:
  fixes vt :: "(FCL_REAL, 'g) virtuals"
  assumes "computeCOM vt g = Vec3f_Zero" and "computeVolume vt g = Finite v"
  shows "computeMomentofInertiaRelatedToCOM vt g = computeMomentofInertia vt g"
  using assms
  by (cases "computeMomentofInertia vt g")
     (simp add: computeMomentofInertiaRelatedToCOM_def Vec3f_Zero_def Vec3f_Constant_def
        zero_FCL_REAL_def Finite_arith plus_Finite_0 minus_Finite_0)

theorem inertia_about_com_at_origin_witness:
  "computeCOM cube_virtuals () = Vec3f_Zero
   \<and> computeVolume cube_virtuals () = Finite 8
   \<and> computeMomentofInertiaRelatedToCOM cube_virtuals ()
       = Matrix3f (Finite (16 / 3)) (Finite 0) (Finite 0)
                  (Finite 0) (Finite (16 / 3)) (Finite 0)
                  (Finite 0) (Finite 0) (Finite (16 / 3))"
proof -
  have a: "computeCOM cube_virtuals () = Vec3f_Zero"
    by (simp add: cube_virtuals_def)
  have b: "computeVolume cube_virtuals () = Finite 8"
    by (simp add: cube_virtuals_def)
  have c: "computeMomentofInertia cube_virtuals ()
       = Matrix3f (Finite (16 / 3)) (Finite 0) (Finite 0)
                  (Finite 0) (Finite (16 / 3)) (Finite 0)
                  (Finite 0) (Finite 0) (Finite (16 / 3))"
    by (simp add: cube_virtuals_def)
  show ?thesis
    using a b inertia_about_com_at_origin [OF a b] by (simp add: c)
qed

end
